theory Spec2Isabelle
  imports Main "HOL-Library.Word"
begin

unbundle bit_operations_syntax

section \<open>Data model of the block pipeline\<close>

text \<open>
  The types below are the ones \<open>BlockOpsStandard\<close> handles. Their Go declarations
  are in other files of the package, so each is kept as small as the operations need:
  byte strings are lists of 8-bit words, keys and identifiers wrap byte strings,
  and a request context is an opaque token.
\<close>

type_synonym bytes = "8 word list"

type_synonym Ctx = nat

datatype BlockID = BlockID bytes

datatype TlfID = TlfID bytes

type_synonym BlockRefNonce = "64 word"

datatype TLFCryptKey = TLFCryptKey bytes

datatype BlockCryptKeyServerHalf = BlockCryptKeyServerHalf bytes

datatype BlockCryptKey = BlockCryptKey bytes

datatype EncryptedBlock = EncryptedBlock bytes

type_synonym Block = bytes

record BlockPointer =
  ID :: BlockID
  RefNonce :: BlockRefNonce
  KeyGen :: nat
  QuotaSize :: nat

record RootMetadata =
  md_ID :: TlfID
  Revision :: nat

record ReadyBlockData =
  buf :: bytes
  serverHalf :: BlockCryptKeyServerHalf

text \<open>
  Go's \<open>error\<close> is an interface. \<open>TooLowByteCountError\<close> is the one error value that
  \<open>Ready\<close> builds itself; every other error comes out of a collaborator and is
  passed on as it is.
\<close>

datatype error =
  TooLowByteCountError (ExpectedMinByteCount: int) (ByteCount: int)
| CollaboratorError string

text \<open>Zero values, as Go's composite literals \<open>BlockID{}\<close> and \<open>ReadyBlockData{}\<close> give them.\<close>

definition zeroBlockID :: BlockID where
  "zeroBlockID = BlockID []"

definition zeroServerHalf :: BlockCryptKeyServerHalf where
  "zeroServerHalf = BlockCryptKeyServerHalf []"

definition zeroReadyBlockData :: ReadyBlockData where
  "zeroReadyBlockData = \<lparr>buf = [], serverHalf = zeroServerHalf\<rparr>"

text \<open>
  Modelled from the spec: the constant \<open>zeroBlockRefNonce\<close> is declared in another
  file of the package; the spec calls it "the zero nonce", the nonce of the primary
  reference created at the first Put.
\<close>

definition zeroBlockRefNonce :: BlockRefNonce where
  "zeroBlockRefNonce = 0"

text \<open>
  Modelled from the spec: \<open>ReadyBlockData.GetEncodedSize\<close> is declared in another
  file of the package; the spec calls its result "the encoded (ciphertext) byte count",
  the number of bytes of the encoded buffer.
\<close>

definition GetEncodedSize :: "ReadyBlockData \<Rightarrow> int" where
  "GetEncodedSize r = int (length (buf r))"

section \<open>Collaborators and the calls made on them\<close>

text \<open>
  \<open>BlockOpsStandard\<close> holds a \<open>Config\<close> and reaches the block server, the key
  manager, the crypto layer and the codec through it. Each collaborator method is
  a field giving the method's answer to its arguments. The answer has the shape
  of the Go results: where the caller stores a result into one of its own named
  results before looking at the error (\<open>EncryptBlock\<close>, \<open>MakePermanentBlockID\<close>)
  the field returns the values together with the error, so that a collaborator
  may hand back a non-zero value alongside an error; elsewhere it is a sum.
  \<open>crypto_MakeRandomBlockCryptKeyServerHalf\<close> is the outcome of the one draw a
  call of \<open>Ready\<close> makes.
\<close>

record Config =
  bserv_Get :: "Ctx \<Rightarrow> BlockID \<Rightarrow> BlockPointer \<Rightarrow> error + (bytes \<times> BlockCryptKeyServerHalf)"
  bserv_Put :: "Ctx \<Rightarrow> BlockID \<Rightarrow> TlfID \<Rightarrow> BlockPointer \<Rightarrow> bytes \<Rightarrow> BlockCryptKeyServerHalf \<Rightarrow> error option"
  bserv_AddBlockReference :: "Ctx \<Rightarrow> BlockID \<Rightarrow> TlfID \<Rightarrow> BlockPointer \<Rightarrow> error option"
  bserv_RemoveBlockReference :: "Ctx \<Rightarrow> BlockID \<Rightarrow> TlfID \<Rightarrow> BlockPointer \<Rightarrow> error option"
  km_GetTLFCryptKeyForEncryption :: "Ctx \<Rightarrow> RootMetadata \<Rightarrow> error + TLFCryptKey"
  km_GetTLFCryptKeyForBlockDecryption :: "Ctx \<Rightarrow> RootMetadata \<Rightarrow> BlockPointer \<Rightarrow> error + TLFCryptKey"
  crypto_MakeRandomBlockCryptKeyServerHalf :: "error + BlockCryptKeyServerHalf"
  crypto_UnmaskBlockCryptKey :: "BlockCryptKeyServerHalf \<Rightarrow> TLFCryptKey \<Rightarrow> error + BlockCryptKey"
  crypto_EncryptBlock :: "Block \<Rightarrow> BlockCryptKey \<Rightarrow> int \<times> EncryptedBlock \<times> error option"
  crypto_DecryptBlock :: "EncryptedBlock \<Rightarrow> BlockCryptKey \<Rightarrow> error + Block"
  crypto_MakePermanentBlockID :: "bytes \<Rightarrow> BlockID \<times> error option"
  codec_Encode :: "EncryptedBlock \<Rightarrow> error + bytes"
  codec_Decode :: "bytes \<Rightarrow> error + EncryptedBlock"

text \<open>
  The calls an operation makes, in the order it makes them. The block server's
  four methods are the store calls; an add-reference call has no payload field.
\<close>

datatype call =
  BServGet Ctx BlockID BlockPointer
| BServPut Ctx BlockID TlfID BlockPointer bytes BlockCryptKeyServerHalf
| BServAddBlockReference Ctx BlockID TlfID BlockPointer
| BServRemoveBlockReference Ctx BlockID TlfID BlockPointer
| KMGetTLFCryptKeyForEncryption Ctx RootMetadata
| KMGetTLFCryptKeyForBlockDecryption Ctx RootMetadata BlockPointer
| CryptoMakeRandomBlockCryptKeyServerHalf
| CryptoUnmaskBlockCryptKey BlockCryptKeyServerHalf TLFCryptKey
| CryptoEncryptBlock Block BlockCryptKey
| CryptoDecryptBlock EncryptedBlock BlockCryptKey
| CryptoMakePermanentBlockID bytes
| CodecEncode EncryptedBlock
| CodecDecode bytes

fun is_store_call :: "call \<Rightarrow> bool" where
  "is_store_call (BServGet _ _ _) = True"
| "is_store_call (BServPut _ _ _ _ _ _) = True"
| "is_store_call (BServAddBlockReference _ _ _ _) = True"
| "is_store_call (BServRemoveBlockReference _ _ _ _) = True"
| "is_store_call _ = False"

text \<open>The payload a store call carries, if it carries one.\<close>

fun sent_payload :: "call \<Rightarrow> bytes option" where
  "sent_payload (BServPut _ _ _ _ bf _) = Some bf"
| "sent_payload _ = None"

section \<open>BlockOpsStandard\<close>

subsection \<open>Get\<close>

text \<open>
  \<open>Get\<close> returns an error only; on success \<open>DecryptBlock\<close> has filled the caller's
  block. The model returns the calls made and either the error or the block
  written.
\<close>

definition Get :: "Config \<Rightarrow> Ctx \<Rightarrow> RootMetadata \<Rightarrow> BlockPointer \<Rightarrow> call list \<times> (error + Block)" where
  "Get b ctx md blockPtr =
     (let c1 = [BServGet ctx (ID blockPtr) blockPtr] in
      case bserv_Get b ctx (ID blockPtr) blockPtr of
        Inl err \<Rightarrow> (c1, Inl err)
      | Inr (bf, blockServerHalf) \<Rightarrow>
     (let c2 = c1 @ [KMGetTLFCryptKeyForBlockDecryption ctx md blockPtr] in
      case km_GetTLFCryptKeyForBlockDecryption b ctx md blockPtr of
        Inl err \<Rightarrow> (c2, Inl err)
      | Inr tlfCryptKey \<Rightarrow>
     (let c3 = c2 @ [CryptoUnmaskBlockCryptKey blockServerHalf tlfCryptKey] in
      case crypto_UnmaskBlockCryptKey b blockServerHalf tlfCryptKey of
        Inl err \<Rightarrow> (c3, Inl err)
      | Inr blockCryptKey \<Rightarrow>
     (let c4 = c3 @ [CodecDecode bf] in
      case codec_Decode b bf of
        Inl err \<Rightarrow> (c4, Inl err)
      | Inr encryptedBlock \<Rightarrow>
          (c4 @ [CryptoDecryptBlock encryptedBlock blockCryptKey],
           crypto_DecryptBlock b encryptedBlock blockCryptKey)))))"

subsection \<open>Ready\<close>

text \<open>
  \<open>Ready\<close> has four named results, \<open>id\<close>, \<open>plainSize\<close>, \<open>readyBlockData\<close> and
  \<open>err\<close>, all zero at entry. The body assigns to them as it goes: every
  \<open>x, err := ...\<close> at the top level of the body assigns the named \<open>err\<close>, the
  \<open>EncryptBlock\<close> line assigns the named \<open>plainSize\<close>, and the last step assigns
  \<open>id\<close>. \<open>Ready_body\<close> is the body up to its \<open>return\<close>; \<open>Ready_deferred\<close> is the
  deferred function, which runs on every return.
\<close>

record ReadyResult =
  res_id :: BlockID
  res_plainSize :: int
  res_readyBlockData :: ReadyBlockData
  res_err :: "error option"

definition Ready_entry :: ReadyResult where
  "Ready_entry =
     \<lparr>res_id = zeroBlockID, res_plainSize = 0,
      res_readyBlockData = zeroReadyBlockData, res_err = None\<rparr>"

definition Ready_body :: "Config \<Rightarrow> Ctx \<Rightarrow> RootMetadata \<Rightarrow> Block \<Rightarrow> call list \<times> ReadyResult" where
  "Ready_body b ctx md block =
     (let r0 = Ready_entry;
          c1 = [KMGetTLFCryptKeyForEncryption ctx md] in
      case km_GetTLFCryptKeyForEncryption b ctx md of
        Inl e \<Rightarrow> (c1, r0\<lparr>res_err := Some e\<rparr>)
      | Inr tlfCryptKey \<Rightarrow>
     (let c2 = c1 @ [CryptoMakeRandomBlockCryptKeyServerHalf] in
      case crypto_MakeRandomBlockCryptKeyServerHalf b of
        Inl e \<Rightarrow> (c2, r0\<lparr>res_err := Some e\<rparr>)
      | Inr sHalf \<Rightarrow>
     (let c3 = c2 @ [CryptoUnmaskBlockCryptKey sHalf tlfCryptKey] in
      case crypto_UnmaskBlockCryptKey b sHalf tlfCryptKey of
        Inl e \<Rightarrow> (c3, r0\<lparr>res_err := Some e\<rparr>)
      | Inr blockKey \<Rightarrow>
     (let c4 = c3 @ [CryptoEncryptBlock block blockKey];
          (pSize, encryptedBlock, e4) = crypto_EncryptBlock b block blockKey;
          r4 = r0\<lparr>res_plainSize := pSize, res_err := e4\<rparr> in
      if e4 \<noteq> None then (c4, r4)
      else
     (let c5 = c4 @ [CodecEncode encryptedBlock] in
      case codec_Encode b encryptedBlock of
        Inl e \<Rightarrow> (c5, r4\<lparr>res_err := Some e\<rparr>)
      | Inr bf \<Rightarrow>
     (let r5 = r4\<lparr>res_readyBlockData := \<lparr>buf = bf, serverHalf = sHalf\<rparr>\<rparr>;
          encodedSize = GetEncodedSize (res_readyBlockData r5) in
      if encodedSize < res_plainSize r5 then
        (c5, r5\<lparr>res_err := Some (TooLowByteCountError (res_plainSize r5) encodedSize)\<rparr>)
      else
     (let c6 = c5 @ [CryptoMakePermanentBlockID bf];
          (bid, e6) = crypto_MakePermanentBlockID b bf in
      (c6, r5\<lparr>res_id := bid, res_err := e6\<rparr>))))))))"

definition Ready_deferred :: "ReadyResult \<Rightarrow> ReadyResult" where
  "Ready_deferred r =
     (if res_err r \<noteq> None
      then r\<lparr>res_id := zeroBlockID, res_plainSize := 0, res_readyBlockData := zeroReadyBlockData\<rparr>
      else r)"

definition Ready :: "Config \<Rightarrow> Ctx \<Rightarrow> RootMetadata \<Rightarrow> Block \<Rightarrow> call list \<times> ReadyResult" where
  "Ready b ctx md block =
     (let (cs, r) = Ready_body b ctx md block in (cs, Ready_deferred r))"

subsection \<open>Put and Delete\<close>

definition Put :: "Config \<Rightarrow> Ctx \<Rightarrow> RootMetadata \<Rightarrow> BlockPointer \<Rightarrow> ReadyBlockData \<Rightarrow> call list \<times> error option" where
  "Put b ctx md blockPtr readyBlockData =
     (if RefNonce blockPtr = zeroBlockRefNonce then
        ([BServPut ctx (ID blockPtr) (md_ID md) blockPtr (buf readyBlockData) (serverHalf readyBlockData)],
         bserv_Put b ctx (ID blockPtr) (md_ID md) blockPtr (buf readyBlockData) (serverHalf readyBlockData))
      else
        ([BServAddBlockReference ctx (ID blockPtr) (md_ID md) blockPtr],
         bserv_AddBlockReference b ctx (ID blockPtr) (md_ID md) blockPtr))"

definition Delete :: "Config \<Rightarrow> Ctx \<Rightarrow> RootMetadata \<Rightarrow> BlockID \<Rightarrow> BlockPointer \<Rightarrow> call list \<times> error option" where
  "Delete b ctx md bid context =
     ([BServRemoveBlockReference ctx bid (md_ID md) context],
      bserv_RemoveBlockReference b ctx bid (md_ID md) context)"

section \<open>Request identifiers\<close>

text \<open>
  \<open>MakeRandomRequestID\<close> fills a buffer of \<open>128/8\<close> bytes from \<open>cryptoRandRead\<close>,
  encodes it with \<open>base64.URLEncoding\<close> and trims the suffix \<open>==\<close>.

  \<open>EncodeToString\<close> is the padded URL-safe encoding of Go's \<open>encoding/base64\<close>:
  three bytes are packed into a 24-bit value and cut into four 6-bit indices
  into the alphabet; a rest of one byte gives two characters and \<open>==\<close>, a rest
  of two bytes three characters and \<open>=\<close>.
\<close>

definition encodeURL :: string where
  "encodeURL = ''ABCDEFGHIJKLMNOPQRSTUVWXYZabcdefghijklmnopqrstuvwxyz0123456789-_''"

definition enc_char :: "32 word \<Rightarrow> char" where
  "enc_char v = encodeURL ! unat (v AND 0x3F)"

fun EncodeToString :: "bytes \<Rightarrow> string" where
  "EncodeToString [] = []"
| "EncodeToString [a] =
     (let v = push_bit 16 (ucast a) :: 32 word in
      [enc_char (drop_bit 18 v), enc_char (drop_bit 12 v), CHR ''='', CHR ''=''])"
| "EncodeToString [a, b] =
     (let v = push_bit 16 (ucast a) OR push_bit 8 (ucast b) :: 32 word in
      [enc_char (drop_bit 18 v), enc_char (drop_bit 12 v), enc_char (drop_bit 6 v), CHR ''=''])"
| "EncodeToString (a # b # c # rest) =
     (let v = push_bit 16 (ucast a) OR push_bit 8 (ucast b) OR ucast c :: 32 word in
      [enc_char (drop_bit 18 v), enc_char (drop_bit 12 v), enc_char (drop_bit 6 v), enc_char v]
      @ EncodeToString rest)"

text \<open>\<open>strings.TrimSuffix\<close>: the string without the suffix when it ends with it, else the string.\<close>

definition TrimSuffix :: "string \<Rightarrow> string \<Rightarrow> string" where
  "TrimSuffix s suf =
     (if length suf \<le> length s \<and> drop (length s - length suf) s = suf
      then take (length s - length suf) s else s)"

text \<open>
  \<open>cryptoRandRead\<close> is a variable of the package declared in another file,
  so it is a parameter: asked to fill a buffer of \<open>n\<close> bytes it answers
  with an error or with the byte it puts at each index. The buffer keeps the
  length \<open>make\<close> gave it.
\<close>

definition MakeRandomRequestID :: "(nat \<Rightarrow> error + (nat \<Rightarrow> 8 word)) \<Rightarrow> string \<times> error option" where
  "MakeRandomRequestID cryptoRandRead =
     (case cryptoRandRead (128 div 8) of
        Inl err \<Rightarrow> ([], Some err)
      | Inr fill \<Rightarrow>
          (TrimSuffix (EncodeToString (map fill [0..<128 div 8])) ''=='', None))"

section \<open>Running a function unless the context is cancelled\<close>






section \<open>Quota reclamation\<close>

text \<open>
  Modelled from the spec: the type \<open>blockRefLocalStatus\<close> is declared in another
  file of the package; the spec gives a reference entry the states live,
  archived and deleted.
\<close>

datatype blockRefLocalStatus = liveBlockRef | archivedBlockRef | deletedBlockRef

text \<open>
  \<open>totalBlockRefs\<close> is the test helper that counts the reference entries of the
  block server's enumeration, a map from block to a map from reference nonce to
  status.
\<close>

type_synonym blockRefMap = "BlockID \<rightharpoonup> (BlockRefNonce \<rightharpoonup> blockRefLocalStatus)"

definition totalBlockRefs :: "blockRefMap \<Rightarrow> nat" where
  "totalBlockRefs m = (\<Sum>b\<in>dom m. card (dom (the (m b))))"

text \<open>
  Modelled from the spec: the block store's remove-reference call, which is
  implemented in another file of the package. The spec has it decrease the
  reference count of a block: the entry of the pointer's nonce leaves the block's reference map. A
  call for an entry that is not there changes nothing.
\<close>

definition removeReference :: "blockRefMap \<Rightarrow> BlockPointer \<Rightarrow> blockRefMap" where
  "removeReference m p =
     (case m (ID p) of
        None \<Rightarrow> m
      | Some refs \<Rightarrow> m(ID p \<mapsto> refs(RefNonce p := None)))"

text \<open>
  The reference entries of a store as a set of (block, nonce) pairs, the stores
  with finitely many of them, and the test whether a pointer's entry is in the
  store. \<open>totalBlockRefs\<close> is the size of that set.
\<close>

definition ref_key :: "BlockPointer \<Rightarrow> BlockID \<times> BlockRefNonce" where
  "ref_key p = (ID p, RefNonce p)"

definition refs_of :: "blockRefMap \<Rightarrow> (BlockID \<times> BlockRefNonce) set" where
  "refs_of m = (SIGMA b:dom m. dom (the (m b)))"

definition finite_store :: "blockRefMap \<Rightarrow> bool" where
  "finite_store m \<longleftrightarrow> finite (dom m) \<and> (\<forall>b\<in>dom m. finite (dom (the (m b))))"

definition has_ref :: "blockRefMap \<Rightarrow> BlockPointer \<Rightarrow> bool" where
  "has_ref m p =
     (case m (ID p) of
        None \<Rightarrow> False
      | Some refs \<Rightarrow> refs (RefNonce p) \<noteq> None)"

text \<open>
  Modelled from the spec: the reclamation engine, its revision history and its
  configuration are in other files of the package (only the tests that drive the
  engine are present). The definitions from here to \<open>reclaim_runs\<close> follow the
  spec's "Algorithm per run":
  \<^item> a revision carries its timestamp and the block pointers it newly unreferenced;
  \<^item> the watermark is the number of revisions of the history fully processed, and
    a run scans the revisions strictly after it;
  \<^item> a pointer is eligible when its revision's timestamp is at least \<open>MinUnrefAge\<close>
    older than the current clock;
  \<^item> a run that hit the threshold leaves the watermark before the revision it
    processed in part, and the next run resumes there: of a scanned revision the
    run takes the pointers that still have a reference entry, so that what an
    earlier run removed is not taken again;
  \<^item> the batch is those pointers of the eligible revisions in scan order, up to
    the per-run threshold;
  \<^item> the commit issues one remove-reference call per pointer of the batch and
    stops at the first store error, which fails the run and leaves the watermark;
  \<^item> on success the watermark moves over the leading revisions whose pointers
    were all in the batch, and stays just before the first revision that was
    not processed completely.
  The store's answer to each remove-reference call is a parameter.
\<close>

record MDRevision =
  rev_timestamp :: int
  rev_unrefs :: "BlockPointer list"

record QRConfig =
  MinUnrefAge :: int
  MaxPointersPerRun :: nat

record QRState =
  qr_store :: blockRefMap
  qr_watermark :: nat

definition eligible :: "QRConfig \<Rightarrow> int \<Rightarrow> MDRevision \<Rightarrow> bool" where
  "eligible cfg now r \<longleftrightarrow> MinUnrefAge cfg \<le> now - rev_timestamp r"

definition scan :: "MDRevision list \<Rightarrow> QRState \<Rightarrow> MDRevision list" where
  "scan history s = drop (qr_watermark s) history"

definition pending :: "blockRefMap \<Rightarrow> MDRevision \<Rightarrow> BlockPointer list" where
  "pending m r = filter (has_ref m) (rev_unrefs r)"

definition eligible_pointers :: "QRConfig \<Rightarrow> int \<Rightarrow> blockRefMap \<Rightarrow> MDRevision list \<Rightarrow> BlockPointer list" where
  "eligible_pointers cfg now m revs = concat (map (pending m) (filter (eligible cfg now) revs))"

definition batch :: "QRConfig \<Rightarrow> int \<Rightarrow> blockRefMap \<Rightarrow> MDRevision list \<Rightarrow> BlockPointer list" where
  "batch cfg now m revs = take (MaxPointersPerRun cfg) (eligible_pointers cfg now m revs)"

fun fully_processed :: "QRConfig \<Rightarrow> int \<Rightarrow> blockRefMap \<Rightarrow> nat \<Rightarrow> MDRevision list \<Rightarrow> nat" where
  "fully_processed cfg now m budget [] = 0"
| "fully_processed cfg now m budget (r # rs) =
     (if eligible cfg now r \<and> length (pending m r) \<le> budget
      then Suc (fully_processed cfg now m (budget - length (pending m r)) rs)
      else 0)"

fun commit :: "(BlockPointer \<Rightarrow> error option) \<Rightarrow> blockRefMap \<Rightarrow> BlockPointer list \<Rightarrow> blockRefMap \<times> error option" where
  "commit storeErr m [] = (m, None)"
| "commit storeErr m (p # ps) =
     (case storeErr p of
        Some e \<Rightarrow> (m, Some e)
      | None \<Rightarrow> commit storeErr (removeReference m p) ps)"

definition reclaim :: "QRConfig \<Rightarrow> (BlockPointer \<Rightarrow> error option) \<Rightarrow> int \<Rightarrow> MDRevision list \<Rightarrow> QRState \<Rightarrow> QRState \<times> error option" where
  "reclaim cfg storeErr now history s =
     (let revs = scan history s;
          (m', err) = commit storeErr (qr_store s) (batch cfg now (qr_store s) revs)
      in case err of
           Some e \<Rightarrow> (s\<lparr>qr_store := m'\<rparr>, Some e)
         | None \<Rightarrow>
             (\<lparr>qr_store = m',
               qr_watermark = qr_watermark s
                 + fully_processed cfg now (qr_store s) (MaxPointersPerRun cfg) revs\<rparr>,
              None))"

text \<open>
  The pointers still eligible in a state, and the state after a number of runs
  in a row at one clock reading.
\<close>

definition remaining :: "QRConfig \<Rightarrow> int \<Rightarrow> MDRevision list \<Rightarrow> QRState \<Rightarrow> BlockPointer list" where
  "remaining cfg now history s = eligible_pointers cfg now (qr_store s) (scan history s)"

fun reclaim_runs :: "QRConfig \<Rightarrow> (BlockPointer \<Rightarrow> error option) \<Rightarrow> int \<Rightarrow> MDRevision list \<Rightarrow> nat \<Rightarrow> QRState \<Rightarrow> QRState" where
  "reclaim_runs cfg storeErr now history 0 s = s"
| "reclaim_runs cfg storeErr now history (Suc n) s =
     reclaim_runs cfg storeErr now history n (fst (reclaim cfg storeErr now history s))"

section \<open>Sample inputs\<close>

definition sample_md :: RootMetadata where
  "sample_md = \<lparr>md_ID = TlfID [7], Revision = 1\<rparr>"

definition sample_ptr :: BlockPointer where
  "sample_ptr = \<lparr>ID = BlockID [1, 2], RefNonce = 0, KeyGen = 1, QuotaSize = 3\<rparr>"

definition sample_ref_ptr :: BlockPointer where
  "sample_ref_ptr = sample_ptr\<lparr>RefNonce := 17\<rparr>"

definition missing_ptr :: BlockPointer where
  "missing_ptr = sample_ptr\<lparr>ID := BlockID [6]\<rparr>"

definition sample_rbd :: ReadyBlockData where
  "sample_rbd = \<lparr>buf = [3, 2, 1], serverHalf = BlockCryptKeyServerHalf [5]\<rparr>"

text \<open>
  A toy configuration: the store holds one block, unmasking concatenates the two
  key halves, encryption reverses the bytes, the codec is the identity on
  non-empty buffers and the block identifier is the encoded buffer itself.
\<close>

definition sample_config :: Config where
  "sample_config =
     \<lparr>bserv_Get = (\<lambda>ctx bid p. if bid = BlockID [1, 2] then Inr ([9, 8, 7], BlockCryptKeyServerHalf [5])
                               else Inl (CollaboratorError ''not found'')),
      bserv_Put = (\<lambda>ctx bid t p bf h. None),
      bserv_AddBlockReference = (\<lambda>ctx bid t p. None),
      bserv_RemoveBlockReference = (\<lambda>ctx bid t p. None),
      km_GetTLFCryptKeyForEncryption = (\<lambda>ctx md. Inr (TLFCryptKey [4])),
      km_GetTLFCryptKeyForBlockDecryption = (\<lambda>ctx md p. Inr (TLFCryptKey [4])),
      crypto_MakeRandomBlockCryptKeyServerHalf = Inr (BlockCryptKeyServerHalf [5]),
      crypto_UnmaskBlockCryptKey =
        (\<lambda>h k. case (h, k) of (BlockCryptKeyServerHalf x, TLFCryptKey y) \<Rightarrow> Inr (BlockCryptKey (x @ y))),
      crypto_EncryptBlock = (\<lambda>blk k. (int (length blk), EncryptedBlock (rev blk), None)),
      crypto_DecryptBlock = (\<lambda>eb k. case eb of EncryptedBlock x \<Rightarrow> Inr (rev x)),
      crypto_MakePermanentBlockID = (\<lambda>bf. (BlockID bf, None)),
      codec_Encode = (\<lambda>eb. case eb of EncryptedBlock x \<Rightarrow> Inr x),
      codec_Decode = (\<lambda>bf. if bf = [] then Inl (CollaboratorError ''decode'') else Inr (EncryptedBlock bf))\<rparr>"

text \<open>
  The same with an encoder that emits no bytes, with an encryption that fails
  after reporting a plaintext size, and with a store that hands back an empty
  buffer, which the codec rejects.
\<close>

definition short_codec_config :: Config where
  "short_codec_config = sample_config\<lparr>codec_Encode := (\<lambda>eb. Inr [])\<rparr>"

definition failing_encrypt_config :: Config where
  "failing_encrypt_config =
     sample_config\<lparr>crypto_EncryptBlock :=
       (\<lambda>blk k. (int (length blk), EncryptedBlock blk, Some (CollaboratorError ''encrypt'')))\<rparr>"

definition empty_buf_config :: Config where
  "empty_buf_config =
     sample_config\<lparr>bserv_Get := (\<lambda>ctx bid p. Inr ([], BlockCryptKeyServerHalf [5]))\<rparr>"

definition sample_rand :: "nat \<Rightarrow> error + (nat \<Rightarrow> 8 word)" where
  "sample_rand n = Inr (\<lambda>i. of_nat (17 * i + 3))"

definition failing_rand :: "nat \<Rightarrow> error + (nat \<Rightarrow> 8 word)" where
  "failing_rand n = Inl (CollaboratorError ''rand'')"

text \<open>
  A folder whose only revision unreferenced three blocks at time 0, each with one
  live reference in the store, and an engine that may remove two pointers per run.
\<close>

definition qr_ptr :: "8 word \<Rightarrow> BlockPointer" where
  "qr_ptr x = \<lparr>ID = BlockID [x], RefNonce = 0, KeyGen = 1, QuotaSize = 1\<rparr>"

definition qr_cfg :: QRConfig where
  "qr_cfg = \<lparr>MinUnrefAge = 10, MaxPointersPerRun = 2\<rparr>"

definition qr_history :: "MDRevision list" where
  "qr_history = [\<lparr>rev_timestamp = 0, rev_unrefs = [qr_ptr 1, qr_ptr 2, qr_ptr 3]\<rparr>]"

definition qr_store0 :: blockRefMap where
  "qr_store0 = [BlockID [1] \<mapsto> [0 \<mapsto> liveBlockRef],
                BlockID [2] \<mapsto> [0 \<mapsto> liveBlockRef],
                BlockID [3] \<mapsto> [0 \<mapsto> liveBlockRef]]"

definition qr_s0 :: QRState where
  "qr_s0 = \<lparr>qr_store = qr_store0, qr_watermark = 0\<rparr>"

definition no_store_error :: "BlockPointer \<Rightarrow> error option" where
  "no_store_error p = None"

text \<open>The states after a first and a second run at time 100.\<close>

definition qr_s1 :: QRState where
  "qr_s1 = fst (reclaim qr_cfg no_store_error 100 qr_history qr_s0)"

definition qr_s2 :: QRState where
  "qr_s2 = fst (reclaim qr_cfg no_store_error 100 qr_history qr_s1)"


section \<open>Properties of Ready\<close>

text \<open>
  C1. When the steps before the integrity check succeed and the encoder has
  produced \<open>bf\<close> for a block whose recorded plaintext size is \<open>p\<close>: if the
  encoded byte count is below \<open>p\<close>, \<open>Ready\<close> fails with \<open>TooLowByteCountError\<close>
  carrying \<open>p\<close> as the expected and the encoded count as the actual number of
  bytes; if the encoded count is at least \<open>p\<close>, the check raises nothing and the
  error of \<open>Ready\<close> is whatever \<open>MakePermanentBlockID\<close> answered. In both cases
  \<open>Ready\<close> makes no call on the block store.
\<close>

theorem Ready_integrity_check:
  assumes "km_GetTLFCryptKeyForEncryption b ctx md = Inr k"
    and "crypto_MakeRandomBlockCryptKeyServerHalf b = Inr h"
    and "crypto_UnmaskBlockCryptKey b h k = Inr bk"
    and "crypto_EncryptBlock b block bk = (p, eb, None)"
    and "codec_Encode b eb = Inr bf"
  shows "res_err (snd (Ready b ctx md block)) =
           (if int (length bf) < p then Some (TooLowByteCountError p (int (length bf)))
            else snd (crypto_MakePermanentBlockID b bf))
         \<and> filter is_store_call (fst (Ready b ctx md block)) = []"
  using assms
  by (auto simp: Ready_def Ready_body_def Ready_deferred_def Ready_entry_def GetEncodedSize_def
        Let_def split: prod.splits)

theorem Ready_integrity_check_witness:
  "res_err (snd (Ready short_codec_config 0 sample_md [1, 2, 3])) = Some (TooLowByteCountError 3 0)
   \<and> filter is_store_call (fst (Ready short_codec_config 0 sample_md [1, 2, 3])) = []"
  using Ready_integrity_check [of short_codec_config 0 sample_md "TLFCryptKey [4]"
      "BlockCryptKeyServerHalf [5]" "BlockCryptKey [5, 4]" "[1, 2, 3]" 3 "EncryptedBlock [3, 2, 1]" "[]"]
  by (simp add: short_codec_config_def sample_config_def)

text \<open>
  C2. Whenever \<open>Ready\<close> returns an error, its three other results are the zero
  values: the zero \<open>BlockID\<close>, plaintext size 0 and the zero \<open>ReadyBlockData\<close>.
\<close>

theorem Ready_error_zero_outputs:
  "res_err (snd (Ready b ctx md block)) \<noteq> None \<Longrightarrow>
     res_id (snd (Ready b ctx md block)) = zeroBlockID
     \<and> res_plainSize (snd (Ready b ctx md block)) = 0
     \<and> res_readyBlockData (snd (Ready b ctx md block)) = zeroReadyBlockData"
  by (simp add: Ready_def Ready_deferred_def split: prod.splits if_splits)

text \<open>
  The witness takes an encryption that fails after reporting a plaintext size
  of 3: the body has stored the 3 in \<open>plainSize\<close> when it returns, and the
  deferred function resets it.
\<close>

theorem Ready_error_zero_outputs_witness:
  "res_err (snd (Ready failing_encrypt_config 0 sample_md [1, 2, 3])) \<noteq> None
   \<and> res_plainSize (snd (Ready_body failing_encrypt_config 0 sample_md [1, 2, 3])) = 3
   \<and> res_id (snd (Ready failing_encrypt_config 0 sample_md [1, 2, 3])) = zeroBlockID
   \<and> res_plainSize (snd (Ready failing_encrypt_config 0 sample_md [1, 2, 3])) = 0
   \<and> res_readyBlockData (snd (Ready failing_encrypt_config 0 sample_md [1, 2, 3])) = zeroReadyBlockData"
proof -
  have e: "res_err (snd (Ready failing_encrypt_config 0 sample_md [1, 2, 3])) \<noteq> None"
    by (simp add: Ready_def Ready_body_def Ready_deferred_def Ready_entry_def Let_def
        failing_encrypt_config_def sample_config_def)
  have p: "res_plainSize (snd (Ready_body failing_encrypt_config 0 sample_md [1, 2, 3])) = 3"
    by (simp add: Ready_body_def Ready_entry_def Let_def
        failing_encrypt_config_def sample_config_def)
  from e p Ready_error_zero_outputs [OF e] show ?thesis by simp
qed

text \<open>
  C6. When \<open>Ready\<close> succeeds it has made exactly six calls, in this order: the
  key manager for the folder's encryption key, the crypto layer for a new random
  server half, the unmasking of the block key from that server half and the
  folder key, the encryption of the block under the block key (whose plaintext
  size is the one returned), the encoding of the encrypted block, and the
  permanent block identifier of the encoded bytes. The identifier returned is
  the one computed from the encoded ciphertext, and the ready data holds the
  encoded bytes and the server half.
\<close>

theorem Ready_success_steps:
  assumes "res_err (snd (Ready b ctx md block)) = None"
  shows "\<exists>k h bk p eb bf.
           km_GetTLFCryptKeyForEncryption b ctx md = Inr k
         \<and> crypto_MakeRandomBlockCryptKeyServerHalf b = Inr h
         \<and> crypto_UnmaskBlockCryptKey b h k = Inr bk
         \<and> crypto_EncryptBlock b block bk = (p, eb, None)
         \<and> codec_Encode b eb = Inr bf
         \<and> crypto_MakePermanentBlockID b bf = (res_id (snd (Ready b ctx md block)), None)
         \<and> fst (Ready b ctx md block) =
             [KMGetTLFCryptKeyForEncryption ctx md,
              CryptoMakeRandomBlockCryptKeyServerHalf,
              CryptoUnmaskBlockCryptKey h k,
              CryptoEncryptBlock block bk,
              CodecEncode eb,
              CryptoMakePermanentBlockID bf]
         \<and> res_plainSize (snd (Ready b ctx md block)) = p
         \<and> res_readyBlockData (snd (Ready b ctx md block)) = \<lparr>buf = bf, serverHalf = h\<rparr>"
  using assms
  by (auto simp: Ready_def Ready_body_def Ready_deferred_def Ready_entry_def GetEncodedSize_def
        Let_def split: prod.splits sum.splits if_splits)

theorem Ready_success_steps_witness:
  "res_err (snd (Ready sample_config 0 sample_md [1, 2, 3])) = None
   \<and> (\<exists>k h bk p eb bf.
           km_GetTLFCryptKeyForEncryption sample_config 0 sample_md = Inr k
         \<and> crypto_MakeRandomBlockCryptKeyServerHalf sample_config = Inr h
         \<and> crypto_UnmaskBlockCryptKey sample_config h k = Inr bk
         \<and> crypto_EncryptBlock sample_config [1, 2, 3] bk = (p, eb, None)
         \<and> codec_Encode sample_config eb = Inr bf
         \<and> crypto_MakePermanentBlockID sample_config bf =
             (res_id (snd (Ready sample_config 0 sample_md [1, 2, 3])), None)
         \<and> fst (Ready sample_config 0 sample_md [1, 2, 3]) =
             [KMGetTLFCryptKeyForEncryption 0 sample_md,
              CryptoMakeRandomBlockCryptKeyServerHalf,
              CryptoUnmaskBlockCryptKey h k,
              CryptoEncryptBlock [1, 2, 3] bk,
              CodecEncode eb,
              CryptoMakePermanentBlockID bf]
         \<and> res_plainSize (snd (Ready sample_config 0 sample_md [1, 2, 3])) = p
         \<and> res_readyBlockData (snd (Ready sample_config 0 sample_md [1, 2, 3])) =
             \<lparr>buf = bf, serverHalf = h\<rparr>)"
proof -
  have e: "res_err (snd (Ready sample_config 0 sample_md [1, 2, 3])) = None"
    by (simp add: Ready_def Ready_body_def Ready_deferred_def Ready_entry_def Let_def
        GetEncodedSize_def sample_config_def)
  from e Ready_success_steps [OF e] show ?thesis by blast
qed

text \<open>The sample run in full: the identifier is that of the ciphertext \<open>[3, 2, 1]\<close>.\<close>

lemma Ready_sample_run:
  "Ready sample_config 0 sample_md [1, 2, 3] =
     ([KMGetTLFCryptKeyForEncryption 0 sample_md,
       CryptoMakeRandomBlockCryptKeyServerHalf,
       CryptoUnmaskBlockCryptKey (BlockCryptKeyServerHalf [5]) (TLFCryptKey [4]),
       CryptoEncryptBlock [1, 2, 3] (BlockCryptKey [5, 4]),
       CodecEncode (EncryptedBlock [3, 2, 1]),
       CryptoMakePermanentBlockID [3, 2, 1]],
      \<lparr>res_id = BlockID [3, 2, 1], res_plainSize = 3,
       res_readyBlockData = \<lparr>buf = [3, 2, 1], serverHalf = BlockCryptKeyServerHalf [5]\<rparr>,
       res_err = None\<rparr>)"
  by (simp add: Ready_def Ready_body_def Ready_deferred_def Ready_entry_def Let_def
        GetEncodedSize_def sample_config_def)

section \<open>Properties of Put\<close>

text \<open>
  C3. With the zero nonce in the pointer, \<open>Put\<close> makes exactly one call, the
  block server's \<open>Put\<close> with the pointer's block identifier, the folder
  identifier, the pointer as context, the encrypted buffer and the server half.
  With any other nonce it makes exactly one call, \<open>AddBlockReference\<close> with the
  block identifier, the folder identifier and the context, and no payload is
  sent. Either way \<open>Put\<close> returns the block server's answer.
\<close>

theorem Put_primary_or_reference:
  "(RefNonce blockPtr = zeroBlockRefNonce \<longrightarrow>
      Put b ctx md blockPtr rbd =
        ([BServPut ctx (ID blockPtr) (md_ID md) blockPtr (buf rbd) (serverHalf rbd)],
         bserv_Put b ctx (ID blockPtr) (md_ID md) blockPtr (buf rbd) (serverHalf rbd)))
   \<and> (RefNonce blockPtr \<noteq> zeroBlockRefNonce \<longrightarrow>
      Put b ctx md blockPtr rbd =
        ([BServAddBlockReference ctx (ID blockPtr) (md_ID md) blockPtr],
         bserv_AddBlockReference b ctx (ID blockPtr) (md_ID md) blockPtr)
      \<and> map sent_payload (fst (Put b ctx md blockPtr rbd)) = [None])"
  by (simp add: Put_def)

theorem Put_primary_or_reference_witness:
  "Put sample_config 0 sample_md sample_ptr sample_rbd =
     ([BServPut 0 (BlockID [1, 2]) (TlfID [7]) sample_ptr [3, 2, 1] (BlockCryptKeyServerHalf [5])], None)
   \<and> Put sample_config 0 sample_md sample_ref_ptr sample_rbd =
     ([BServAddBlockReference 0 (BlockID [1, 2]) (TlfID [7]) sample_ref_ptr], None)
   \<and> map sent_payload (fst (Put sample_config 0 sample_md sample_ref_ptr sample_rbd)) = [None]"
  using Put_primary_or_reference [of sample_ptr sample_config 0 sample_md sample_rbd]
    Put_primary_or_reference [of sample_ref_ptr sample_config 0 sample_md sample_rbd]
  by (simp add: sample_ptr_def sample_ref_ptr_def sample_md_def sample_rbd_def sample_config_def
      zeroBlockRefNonce_def)

section \<open>Properties of Get\<close>

text \<open>
  C7. \<open>Get\<close> asks the block store for the bytes and the server half under the
  pointer's block identifier, asks the key manager for the folder's decryption
  key, unmasks the block key from the server half and the folder key, decodes
  the bytes and decrypts the result into the caller's block. It stops at the
  first step that fails and returns that step's error: when the store has no
  such block or the folder key cannot be had, nothing is decoded or decrypted;
  when the key cannot be unmasked, likewise; when the bytes do not decode,
  nothing is decrypted; when decryption fails, its error is the result. \<open>Get\<close>
  yields a block only when every step succeeded, and the block is then the one
  decryption produced.
\<close>

theorem Get_steps_and_failures:
  "(bserv_Get b ctx (ID blockPtr) blockPtr = Inl e1 \<longrightarrow>
      Get b ctx md blockPtr = ([BServGet ctx (ID blockPtr) blockPtr], Inl e1))
   \<and> (bserv_Get b ctx (ID blockPtr) blockPtr = Inr (bf, h)
        \<and> km_GetTLFCryptKeyForBlockDecryption b ctx md blockPtr = Inl e2 \<longrightarrow>
      Get b ctx md blockPtr =
        ([BServGet ctx (ID blockPtr) blockPtr,
          KMGetTLFCryptKeyForBlockDecryption ctx md blockPtr], Inl e2))
   \<and> (bserv_Get b ctx (ID blockPtr) blockPtr = Inr (bf, h)
        \<and> km_GetTLFCryptKeyForBlockDecryption b ctx md blockPtr = Inr k
        \<and> crypto_UnmaskBlockCryptKey b h k = Inl e3 \<longrightarrow>
      Get b ctx md blockPtr =
        ([BServGet ctx (ID blockPtr) blockPtr,
          KMGetTLFCryptKeyForBlockDecryption ctx md blockPtr,
          CryptoUnmaskBlockCryptKey h k], Inl e3))
   \<and> (bserv_Get b ctx (ID blockPtr) blockPtr = Inr (bf, h)
        \<and> km_GetTLFCryptKeyForBlockDecryption b ctx md blockPtr = Inr k
        \<and> crypto_UnmaskBlockCryptKey b h k = Inr bk
        \<and> codec_Decode b bf = Inl e4 \<longrightarrow>
      Get b ctx md blockPtr =
        ([BServGet ctx (ID blockPtr) blockPtr,
          KMGetTLFCryptKeyForBlockDecryption ctx md blockPtr,
          CryptoUnmaskBlockCryptKey h k,
          CodecDecode bf], Inl e4))
   \<and> (bserv_Get b ctx (ID blockPtr) blockPtr = Inr (bf, h)
        \<and> km_GetTLFCryptKeyForBlockDecryption b ctx md blockPtr = Inr k
        \<and> crypto_UnmaskBlockCryptKey b h k = Inr bk
        \<and> codec_Decode b bf = Inr eb \<longrightarrow>
      Get b ctx md blockPtr =
        ([BServGet ctx (ID blockPtr) blockPtr,
          KMGetTLFCryptKeyForBlockDecryption ctx md blockPtr,
          CryptoUnmaskBlockCryptKey h k,
          CodecDecode bf,
          CryptoDecryptBlock eb bk], crypto_DecryptBlock b eb bk))
   \<and> (snd (Get b ctx md blockPtr) = Inr blk \<longrightarrow>
        (\<exists>bf' h' k' bk' eb'.
            bserv_Get b ctx (ID blockPtr) blockPtr = Inr (bf', h')
          \<and> km_GetTLFCryptKeyForBlockDecryption b ctx md blockPtr = Inr k'
          \<and> crypto_UnmaskBlockCryptKey b h' k' = Inr bk'
          \<and> codec_Decode b bf' = Inr eb'
          \<and> crypto_DecryptBlock b eb' bk' = Inr blk))"
  by (auto simp: Get_def Let_def split: sum.splits prod.splits)

text \<open>
  The witness reads the stored block, looks for a block the store does not
  have, and reads a block whose stored bytes do not decode.
\<close>

theorem Get_steps_and_failures_witness:
  "Get sample_config 0 sample_md sample_ptr =
     ([BServGet 0 (BlockID [1, 2]) sample_ptr,
       KMGetTLFCryptKeyForBlockDecryption 0 sample_md sample_ptr,
       CryptoUnmaskBlockCryptKey (BlockCryptKeyServerHalf [5]) (TLFCryptKey [4]),
       CodecDecode [9, 8, 7],
       CryptoDecryptBlock (EncryptedBlock [9, 8, 7]) (BlockCryptKey [5, 4])], Inr [7, 8, 9])
   \<and> Get sample_config 0 sample_md missing_ptr =
     ([BServGet 0 (BlockID [6]) missing_ptr], Inl (CollaboratorError ''not found''))
   \<and> Get empty_buf_config 0 sample_md sample_ptr =
     ([BServGet 0 (BlockID [1, 2]) sample_ptr,
       KMGetTLFCryptKeyForBlockDecryption 0 sample_md sample_ptr,
       CryptoUnmaskBlockCryptKey (BlockCryptKeyServerHalf [5]) (TLFCryptKey [4]),
       CodecDecode []], Inl (CollaboratorError ''decode''))"
proof -
  have ok: "Get sample_config 0 sample_md sample_ptr =
     ([BServGet 0 (ID sample_ptr) sample_ptr,
       KMGetTLFCryptKeyForBlockDecryption 0 sample_md sample_ptr,
       CryptoUnmaskBlockCryptKey (BlockCryptKeyServerHalf [5]) (TLFCryptKey [4]),
       CodecDecode [9, 8, 7],
       CryptoDecryptBlock (EncryptedBlock [9, 8, 7]) (BlockCryptKey [5, 4])],
      crypto_DecryptBlock sample_config (EncryptedBlock [9, 8, 7]) (BlockCryptKey [5, 4]))"
    by (rule Get_steps_and_failures [THEN conjunct2, THEN conjunct2, THEN conjunct2,
          THEN conjunct2, THEN conjunct1, THEN mp])
       (simp add: sample_config_def sample_ptr_def)
  have missing: "Get sample_config 0 sample_md missing_ptr =
     ([BServGet 0 (ID missing_ptr) missing_ptr], Inl (CollaboratorError ''not found''))"
    by (rule Get_steps_and_failures [THEN conjunct1, THEN mp])
       (simp add: sample_config_def missing_ptr_def sample_ptr_def)
  have malformed: "Get empty_buf_config 0 sample_md sample_ptr =
     ([BServGet 0 (ID sample_ptr) sample_ptr,
       KMGetTLFCryptKeyForBlockDecryption 0 sample_md sample_ptr,
       CryptoUnmaskBlockCryptKey (BlockCryptKeyServerHalf [5]) (TLFCryptKey [4]),
       CodecDecode []], Inl (CollaboratorError ''decode''))"
    by (rule Get_steps_and_failures [THEN conjunct2, THEN conjunct2, THEN conjunct2,
          THEN conjunct1, THEN mp])
       (simp add: empty_buf_config_def sample_config_def sample_ptr_def)
  have ids: "ID sample_ptr = BlockID [1, 2]" "ID missing_ptr = BlockID [6]"
    by (simp_all add: sample_ptr_def missing_ptr_def)
  have dec: "crypto_DecryptBlock sample_config (EncryptedBlock [9, 8, 7]) (BlockCryptKey [5, 4])
      = Inr [7, 8, 9]"
    by (simp add: sample_config_def)
  from ok missing malformed show ?thesis unfolding ids dec by simp
qed

section \<open>Properties of MakeRandomRequestID\<close>

lemma enc_char_in: "enc_char v \<in> set encodeURL"
proof -
  have "v AND 0x3F \<le> 0x3F" by (rule word_and_le1)
  then have "unat (v AND 0x3F) \<le> 63" by (simp add: word_le_nat_alt)
  then have "unat (v AND 0x3F) < length encodeURL"
    by (simp add: encodeURL_def)
  then show ?thesis unfolding enc_char_def by (rule nth_mem)
qed

lemma pad_not_in: "CHR ''='' \<notin> set encodeURL"
  by (simp add: encodeURL_def)

lemma enc_char_not_pad: "enc_char v \<noteq> CHR ''=''"
  using enc_char_in [of v] pad_not_in by metis

lemma pad_not_enc_char: "CHR ''='' \<noteq> enc_char v"
  using enc_char_not_pad [of v] by metis

lemma upt_16: "[0..<16] = [0, 1, 2, 3, 4, 5, 6, 7, 8, 9, 10, 11, 12, 13, 14, 15]"
  by (simp add: upt_rec)

text \<open>
  C10. When the random source fills the 16-byte buffer, \<open>MakeRandomRequestID\<close>
  returns, with no error, the base64 URL encoding of the buffer without its
  trailing \<open>==\<close>: 22 characters of the URL-safe alphabet, none of them \<open>=\<close>. When
  the random source fails it returns the empty string and the error.
\<close>

theorem MakeRandomRequestID_shape:
  "(cryptoRandRead 16 = Inr fill \<longrightarrow>
      (\<exists>s. MakeRandomRequestID cryptoRandRead = (s, None)
         \<and> EncodeToString (map fill [0..<16]) = s @ ''==''
         \<and> length s = 22
         \<and> set s \<subseteq> set encodeURL
         \<and> CHR ''='' \<notin> set s))
   \<and> (cryptoRandRead 16 = Inl err \<longrightarrow>
         MakeRandomRequestID cryptoRandRead = ([], Some err))"
  by (simp add: MakeRandomRequestID_def upt_16 TrimSuffix_def Let_def
      enc_char_in enc_char_not_pad pad_not_enc_char)

lemma MakeRandomRequestID_sample:
  "MakeRandomRequestID sample_rand = (''AxQlNkdYaXqLnK2-z-DxAg'', None)"
  by code_simp

theorem MakeRandomRequestID_shape_witness:
  "(\<exists>s. MakeRandomRequestID sample_rand = (s, None)
       \<and> EncodeToString (map (\<lambda>i. of_nat (17 * i + 3)) [0..<16]) = s @ ''==''
       \<and> length s = 22
       \<and> set s \<subseteq> set encodeURL
       \<and> CHR ''='' \<notin> set s)
   \<and> MakeRandomRequestID failing_rand = ([], Some (CollaboratorError ''rand''))"
  using MakeRandomRequestID_shape [where cryptoRandRead = sample_rand
        and fill = "\<lambda>i. of_nat (17 * i + 3)"]
    MakeRandomRequestID_shape [where cryptoRandRead = failing_rand
        and err = "CollaboratorError ''rand''"]
  by (simp add: sample_rand_def failing_rand_def)

section \<open>Properties of runUnlessCanceled\<close>




section \<open>Properties of quota reclamation\<close>

subsection \<open>Reference entries as a set\<close>

lemma totalBlockRefs_card: "finite_store m \<Longrightarrow> totalBlockRefs m = card (refs_of m)"
  by (simp add: finite_store_def totalBlockRefs_def refs_of_def)

lemma finite_refs_of: "finite_store m \<Longrightarrow> finite (refs_of m)"
  by (auto simp: finite_store_def refs_of_def)

lemma has_ref_iff: "has_ref m p \<longleftrightarrow> ref_key p \<in> refs_of m"
  by (auto simp: has_ref_def ref_key_def refs_of_def split: option.splits)

lemma refs_of_removeReference:
  "refs_of (removeReference m p) = refs_of m - {(ID p, RefNonce p)}"
  by (auto simp: refs_of_def removeReference_def split: option.splits if_splits)

lemma finite_store_removeReference:
  "finite_store m \<Longrightarrow> finite_store (removeReference m p)"
  by (auto simp: finite_store_def removeReference_def split: option.splits if_splits)

text \<open>
  A commit removes the entries of a prefix of the batch, and of the whole batch
  when it reports no error.
\<close>

lemma commit_refs:
  "commit storeErr m ps = (m', err) \<Longrightarrow>
     \<exists>k \<le> length ps. refs_of m' = refs_of m - ref_key ` set (take k ps) \<and> (err = None \<longrightarrow> k = length ps)"
proof (induction ps arbitrary: m)
  case Nil
  then show ?case by simp
next
  case (Cons p ps)
  show ?case
  proof (cases "storeErr p")
    case (Some e)
    with Cons.prems have "m' = m" "err = Some e" by simp_all
    then show ?thesis by (intro exI [of _ 0]) simp
  next
    case None
    with Cons.prems have "commit storeErr (removeReference m p) ps = (m', err)" by simp
    from Cons.IH [OF this] obtain k where k: "k \<le> length ps"
      "refs_of m' = refs_of (removeReference m p) - ref_key ` set (take k ps)"
      "err = None \<longrightarrow> k = length ps" by blast
    then show ?thesis
      by (intro exI [of _ "Suc k"]) (auto simp: refs_of_removeReference ref_key_def)
  qed
qed

lemma commit_finite:
  "finite_store m \<Longrightarrow> commit storeErr m ps = (m', err) \<Longrightarrow> finite_store m'"
proof (induction ps arbitrary: m)
  case Nil
  then show ?case by simp
next
  case (Cons p ps)
  show ?case
  proof (cases "storeErr p")
    case (Some e)
    with Cons.prems show ?thesis by simp
  next
    case None
    with Cons.prems have "commit storeErr (removeReference m p) ps = (m', err)" by simp
    with Cons.IH [of "removeReference m p"] Cons.prems(1) show ?thesis
      by (simp add: finite_store_removeReference)
  qed
qed

lemma commit_all_ok: "\<forall>p. storeErr p = None \<Longrightarrow> snd (commit storeErr m ps) = None"
  by (induction ps arbitrary: m) simp_all

subsection \<open>One run\<close>

lemma reclaim_commit:
  "\<exists>m' err. commit storeErr (qr_store s) (batch cfg now (qr_store s) (scan history s)) = (m', err)
     \<and> qr_store (fst (reclaim cfg storeErr now history s)) = m'
     \<and> snd (reclaim cfg storeErr now history s) = err"
  by (cases "commit storeErr (qr_store s) (batch cfg now (qr_store s) (scan history s))")
     (simp add: reclaim_def Let_def split: option.splits)

lemma length_batch: "length (batch cfg now m revs) \<le> MaxPointersPerRun cfg"
  by (simp add: batch_def)

lemma batch_has_ref: "p \<in> set (batch cfg now m revs) \<Longrightarrow> has_ref m p"
proof -
  assume "p \<in> set (batch cfg now m revs)"
  then have "p \<in> set (eligible_pointers cfg now m revs)"
    unfolding batch_def by (rule in_set_takeD)
  then show ?thesis by (auto simp: eligible_pointers_def pending_def)
qed

lemma batch_nonempty:
  "0 < MaxPointersPerRun cfg \<Longrightarrow> eligible_pointers cfg now m revs \<noteq> [] \<Longrightarrow>
     batch cfg now m revs \<noteq> []"
  by (simp add: batch_def)

lemma reclaim_refs:
  "\<exists>k \<le> MaxPointersPerRun cfg.
     refs_of (qr_store (fst (reclaim cfg storeErr now history s))) =
       refs_of (qr_store s) - ref_key ` set (take k (batch cfg now (qr_store s) (scan history s)))
     \<and> (snd (reclaim cfg storeErr now history s) = None \<longrightarrow>
          take k (batch cfg now (qr_store s) (scan history s)) =
            batch cfg now (qr_store s) (scan history s))"
proof -
  let ?b = "batch cfg now (qr_store s) (scan history s)"
  obtain m' err where c: "commit storeErr (qr_store s) ?b = (m', err)"
    and m': "qr_store (fst (reclaim cfg storeErr now history s)) = m'"
    and err: "snd (reclaim cfg storeErr now history s) = err"
    using reclaim_commit by blast
  from commit_refs [OF c] obtain k where k: "k \<le> length ?b"
    "refs_of m' = refs_of (qr_store s) - ref_key ` set (take k ?b)"
    "err = None \<longrightarrow> k = length ?b" by blast
  from k(1) length_batch [of cfg now "qr_store s" "scan history s"]
  have "k \<le> MaxPointersPerRun cfg" by simp
  with k m' err show ?thesis by (intro exI [of _ k]) auto
qed

lemma reclaim_refs_success:
  assumes "snd (reclaim cfg storeErr now history s) = None"
  shows "refs_of (qr_store (fst (reclaim cfg storeErr now history s))) =
           refs_of (qr_store s) - ref_key ` set (batch cfg now (qr_store s) (scan history s))"
proof -
  let ?b = "batch cfg now (qr_store s) (scan history s)"
  from reclaim_refs [of cfg storeErr now history s] obtain k where
    "refs_of (qr_store (fst (reclaim cfg storeErr now history s))) =
       refs_of (qr_store s) - ref_key ` set (take k ?b)"
    "snd (reclaim cfg storeErr now history s) = None \<longrightarrow> take k ?b = ?b"
    by (elim exE conjE) (rule that)
  with assms show ?thesis by simp
qed

lemma reclaim_watermark_success:
  assumes "snd (reclaim cfg storeErr now history s) = None"
  shows "qr_watermark (fst (reclaim cfg storeErr now history s)) =
           qr_watermark s
             + fully_processed cfg now (qr_store s) (MaxPointersPerRun cfg) (scan history s)"
  using assms
  by (cases "commit storeErr (qr_store s) (batch cfg now (qr_store s) (scan history s))")
     (auto simp: reclaim_def Let_def split: option.splits)

lemma reclaim_finite:
  assumes "finite_store (qr_store s)"
  shows "finite_store (qr_store (fst (reclaim cfg storeErr now history s)))"
proof -
  obtain m' err
    where c: "commit storeErr (qr_store s) (batch cfg now (qr_store s) (scan history s)) = (m', err)"
    and m': "qr_store (fst (reclaim cfg storeErr now history s)) = m'"
    using reclaim_commit by blast
  from commit_finite [OF assms c] m' show ?thesis by simp
qed

lemma reclaim_all_ok:
  assumes "\<forall>p. storeErr p = None"
  shows "snd (reclaim cfg storeErr now history s) = None"
proof -
  obtain m' err
    where c: "commit storeErr (qr_store s) (batch cfg now (qr_store s) (scan history s)) = (m', err)"
    and err: "snd (reclaim cfg storeErr now history s) = err"
    using reclaim_commit by blast
  from commit_all_ok [OF assms, of "qr_store s" "batch cfg now (qr_store s) (scan history s)"] c
  have "err = None" by simp
  with err show ?thesis by simp
qed

lemma reclaim_no_store_error: "snd (reclaim cfg no_store_error now history s) = None"
  by (rule reclaim_all_ok) (simp add: no_store_error_def)

lemma card_diff_image_bound:
  assumes "finite A"
  shows "card A \<le> card (A - f ` set xs) + length xs"
proof -
  have "A \<subseteq> (A - f ` set xs) \<union> f ` set xs" by blast
  then have "card A \<le> card ((A - f ` set xs) \<union> f ` set xs)"
    using assms by (intro card_mono) auto
  also have "\<dots> \<le> card (A - f ` set xs) + card (f ` set xs)" by (rule card_Un_le)
  also have "card (f ` set xs) \<le> length xs"
    using card_image_le [of "set xs" f] card_length [of xs] by simp
  finally show ?thesis by simp
qed

lemma reclaim_bound:
  assumes "finite_store (qr_store s)"
  shows "totalBlockRefs (qr_store (fst (reclaim cfg storeErr now history s))) \<le> totalBlockRefs (qr_store s)
       \<and> totalBlockRefs (qr_store s) \<le>
           totalBlockRefs (qr_store (fst (reclaim cfg storeErr now history s))) + MaxPointersPerRun cfg"
proof -
  let ?s' = "fst (reclaim cfg storeErr now history s)"
  let ?b = "batch cfg now (qr_store s) (scan history s)"
  from reclaim_refs [of cfg storeErr now history s] obtain k where k: "k \<le> MaxPointersPerRun cfg"
    and r: "refs_of (qr_store ?s') = refs_of (qr_store s) - ref_key ` set (take k ?b)"
    by (elim exE conjE) (rule that)
  have fin: "finite (refs_of (qr_store s))" using assms by (rule finite_refs_of)
  have t: "totalBlockRefs (qr_store s) = card (refs_of (qr_store s))"
    using assms by (rule totalBlockRefs_card)
  have t': "totalBlockRefs (qr_store ?s') = card (refs_of (qr_store ?s'))"
    using reclaim_finite [OF assms] by (rule totalBlockRefs_card)
  have le: "card (refs_of (qr_store ?s')) \<le> card (refs_of (qr_store s))"
    unfolding r using fin by (intro card_mono) auto
  have "card (refs_of (qr_store s)) \<le> card (refs_of (qr_store ?s')) + length (take k ?b)"
    unfolding r using fin by (rule card_diff_image_bound)
  with k have "card (refs_of (qr_store s)) \<le> card (refs_of (qr_store ?s')) + MaxPointersPerRun cfg"
    by simp
  with le show ?thesis unfolding t t' by simp
qed

lemma reclaim_progress:
  assumes fs: "finite_store (qr_store s)"
    and pos: "0 < MaxPointersPerRun cfg"
    and ok: "snd (reclaim cfg storeErr now history s) = None"
    and rem: "remaining cfg now history s \<noteq> []"
  shows "totalBlockRefs (qr_store (fst (reclaim cfg storeErr now history s))) < totalBlockRefs (qr_store s)"
proof -
  let ?s' = "fst (reclaim cfg storeErr now history s)"
  let ?b = "batch cfg now (qr_store s) (scan history s)"
  from pos rem have "?b \<noteq> []" unfolding remaining_def by (rule batch_nonempty)
  then obtain p where p: "p \<in> set ?b" by (cases ?b) auto
  then have "has_ref (qr_store s) p" by (rule batch_has_ref)
  then have in_s: "ref_key p \<in> refs_of (qr_store s)" by (simp add: has_ref_iff)
  have r: "refs_of (qr_store ?s') = refs_of (qr_store s) - ref_key ` set ?b"
    using ok by (rule reclaim_refs_success)
  with p in_s have "refs_of (qr_store ?s') \<subset> refs_of (qr_store s)" by blast
  with finite_refs_of [OF fs] have "card (refs_of (qr_store ?s')) < card (refs_of (qr_store s))"
    by (rule psubset_card_mono)
  then show ?thesis
    using totalBlockRefs_card [OF fs] totalBlockRefs_card [OF reclaim_finite [OF fs]] by simp
qed

lemma reclaim_fixed_point:
  assumes "remaining cfg now history s = []"
  shows "qr_store (fst (reclaim cfg storeErr now history s)) = qr_store s"
proof -
  from assms have "batch cfg now (qr_store s) (scan history s) = []"
    by (simp add: remaining_def batch_def)
  then show ?thesis by (simp add: reclaim_def Let_def)
qed

subsection \<open>Runs in a row\<close>

lemma reclaim_runs_converge:
  assumes pos: "0 < MaxPointersPerRun cfg" and ok: "\<forall>p. storeErr p = None"
  shows "finite_store (qr_store s) \<Longrightarrow> totalBlockRefs (qr_store s) = k \<Longrightarrow>
    \<exists>n \<le> k. remaining cfg now history (reclaim_runs cfg storeErr now history n s) = []"
proof (induction k arbitrary: s rule: less_induct)
  case (less k)
  show ?case
  proof (cases "remaining cfg now history s = []")
    case True
    then show ?thesis by (intro exI [of _ 0]) simp
  next
    case False
    let ?s' = "fst (reclaim cfg storeErr now history s)"
    have lt: "totalBlockRefs (qr_store ?s') < k"
      using reclaim_progress [OF less.prems(1) pos reclaim_all_ok [OF ok] False] less.prems(2)
      by simp
    from less.IH [OF lt reclaim_finite [OF less.prems(1)] refl]
    obtain n where n: "n \<le> totalBlockRefs (qr_store ?s')"
      "remaining cfg now history (reclaim_runs cfg storeErr now history n ?s') = []"
      by blast
    from n(1) lt have "Suc n \<le> k" by simp
    with n(2) show ?thesis by (intro exI [of _ "Suc n"]) simp
  qed
qed

text \<open>
  The watermark moves only over revisions all of whose pointers have left the
  store: the run took every pointer of such a revision that still had a
  reference entry.
\<close>

lemma fully_processed_in_batch:
  "set (concat (map (pending m) (take (fully_processed cfg now m budget revs) revs)))
     \<subseteq> set (take budget (eligible_pointers cfg now m revs))"
proof (induction revs arbitrary: budget)
  case Nil
  then show ?case by simp
next
  case (Cons r rs)
  show ?case
  proof (cases "eligible cfg now r \<and> length (pending m r) \<le> budget")
    case True
    with Cons.IH [of "budget - length (pending m r)"] show ?thesis
      by (auto simp: eligible_pointers_def)
  next
    case False
    then show ?thesis by auto
  qed
qed

lemma reclaim_watermark_sound:
  assumes ok: "snd (reclaim cfg storeErr now history s) = None"
    and r: "r \<in> set (take (fully_processed cfg now (qr_store s) (MaxPointersPerRun cfg) (scan history s))
                        (scan history s))"
    and p: "p \<in> set (rev_unrefs r)"
  shows "\<not> has_ref (qr_store (fst (reclaim cfg storeErr now history s))) p"
proof (cases "has_ref (qr_store s) p")
  case True
  with r p have "p \<in> set (concat (map (pending (qr_store s))
      (take (fully_processed cfg now (qr_store s) (MaxPointersPerRun cfg) (scan history s))
         (scan history s))))"
    by (auto simp: pending_def)
  with fully_processed_in_batch
  have "p \<in> set (batch cfg now (qr_store s) (scan history s))"
    unfolding batch_def by blast
  then show ?thesis
    by (auto simp: has_ref_iff reclaim_refs_success [OF ok])
next
  case False
  then show ?thesis
    by (auto simp: has_ref_iff reclaim_refs_success [OF ok])
qed

subsection \<open>The sample folder\<close>

lemma finite_store_qr_store0: "finite_store qr_store0"
  by (simp add: finite_store_def qr_store0_def)

lemma refs_of_qr_store0:
  "refs_of qr_store0 = {(BlockID [1], 0), (BlockID [2], 0), (BlockID [3], 0)}"
  by (auto simp: refs_of_def qr_store0_def split: if_splits)

lemma ref_key_qr_ptr: "ref_key (qr_ptr x) = (BlockID [x], 0)"
  by (simp add: ref_key_def qr_ptr_def)

lemma pending_qr_s0:
  "pending (qr_store qr_s0) \<lparr>rev_timestamp = 0, rev_unrefs = [qr_ptr 1, qr_ptr 2, qr_ptr 3]\<rparr>
     = [qr_ptr 1, qr_ptr 2, qr_ptr 3]"
  by (simp add: pending_def has_ref_iff ref_key_qr_ptr qr_s0_def refs_of_qr_store0)

lemma scan_qr_s0: "scan qr_history qr_s0 = qr_history"
  by (simp add: scan_def qr_s0_def)

lemma batch_qr_s0: "batch qr_cfg 100 (qr_store qr_s0) (scan qr_history qr_s0) = [qr_ptr 1, qr_ptr 2]"
  unfolding scan_qr_s0
  by (simp add: batch_def eligible_pointers_def qr_history_def eligible_def pending_qr_s0)
     (simp add: qr_cfg_def)

lemma refs_of_qr_s1: "refs_of (qr_store qr_s1) = {(BlockID [3], 0)}"
  unfolding qr_s1_def
  by (simp add: reclaim_refs_success [OF reclaim_no_store_error] batch_qr_s0 ref_key_qr_ptr)
     (auto simp: qr_s0_def refs_of_qr_store0)

lemma fully_processed_qr_s0:
  "fully_processed qr_cfg 100 (qr_store qr_s0) (MaxPointersPerRun qr_cfg) (scan qr_history qr_s0) = 0"
proof -
  have "fully_processed qr_cfg 100 (qr_store qr_s0) (MaxPointersPerRun qr_cfg) qr_history = 0"
    by (simp add: qr_history_def pending_qr_s0 qr_cfg_def)
  then show ?thesis by (simp only: scan_qr_s0)
qed

lemma watermark_qr_s1: "qr_watermark qr_s1 = 0"
  unfolding qr_s1_def
  by (simp add: reclaim_watermark_success [OF reclaim_no_store_error] fully_processed_qr_s0)
     (simp add: qr_s0_def)

lemma finite_store_qr_s1: "finite_store (qr_store qr_s1)"
  unfolding qr_s1_def by (rule reclaim_finite) (simp add: qr_s0_def finite_store_qr_store0)

lemma pending_qr_s1:
  "pending (qr_store qr_s1) \<lparr>rev_timestamp = 0, rev_unrefs = [qr_ptr 1, qr_ptr 2, qr_ptr 3]\<rparr>
     = [qr_ptr 3]"
  by (simp add: pending_def has_ref_iff ref_key_qr_ptr refs_of_qr_s1)

lemma scan_qr_s1: "scan qr_history qr_s1 = qr_history"
  by (simp add: scan_def watermark_qr_s1)

text \<open>The second run resumes the revision that the first run processed in part.\<close>

lemma batch_qr_s1: "batch qr_cfg 100 (qr_store qr_s1) (scan qr_history qr_s1) = [qr_ptr 3]"
  unfolding scan_qr_s1
  by (simp add: batch_def eligible_pointers_def qr_history_def eligible_def pending_qr_s1)
     (simp add: qr_cfg_def)

lemma refs_of_qr_s2: "refs_of (qr_store qr_s2) = {}"
  unfolding qr_s2_def
  by (simp add: reclaim_refs_success [OF reclaim_no_store_error] batch_qr_s1 ref_key_qr_ptr
        refs_of_qr_s1)

lemma fully_processed_qr_s1:
  "fully_processed qr_cfg 100 (qr_store qr_s1) (MaxPointersPerRun qr_cfg) (scan qr_history qr_s1) = 1"
proof -
  have "fully_processed qr_cfg 100 (qr_store qr_s1) (MaxPointersPerRun qr_cfg) qr_history = 1"
    by (simp add: qr_history_def pending_qr_s1 qr_cfg_def eligible_def)
  then show ?thesis by (simp only: scan_qr_s1)
qed

lemma watermark_qr_s2: "qr_watermark qr_s2 = 1"
  unfolding qr_s2_def
  by (simp add: reclaim_watermark_success [OF reclaim_no_store_error] fully_processed_qr_s1
        watermark_qr_s1)

lemma finite_store_qr_s2: "finite_store (qr_store qr_s2)"
  unfolding qr_s2_def by (rule reclaim_finite) (rule finite_store_qr_s1)

lemma totalBlockRefs_sample:
  "totalBlockRefs (qr_store qr_s0) = 3
   \<and> totalBlockRefs (qr_store qr_s1) = 1
   \<and> totalBlockRefs (qr_store qr_s2) = 0"
  by (simp add: totalBlockRefs_card finite_store_qr_store0 refs_of_qr_store0
      finite_store_qr_s1 refs_of_qr_s1 finite_store_qr_s2 refs_of_qr_s2 qr_s0_def)

lemma remaining_sample:
  "remaining qr_cfg 100 qr_history qr_s0 = [qr_ptr 1, qr_ptr 2, qr_ptr 3]
   \<and> remaining qr_cfg 100 qr_history qr_s1 = [qr_ptr 3]
   \<and> remaining qr_cfg 100 qr_history qr_s2 = []"
proof -
  have "remaining qr_cfg 100 qr_history qr_s0 = [qr_ptr 1, qr_ptr 2, qr_ptr 3]"
    unfolding remaining_def scan_qr_s0
    by (simp add: eligible_pointers_def qr_history_def eligible_def pending_qr_s0)
       (simp add: qr_cfg_def)
  moreover have "remaining qr_cfg 100 qr_history qr_s1 = [qr_ptr 3]"
    unfolding remaining_def scan_qr_s1
    by (simp add: eligible_pointers_def qr_history_def eligible_def pending_qr_s1)
       (simp add: qr_cfg_def)
  moreover have "remaining qr_cfg 100 qr_history qr_s2 = []"
    by (simp add: remaining_def scan_def watermark_qr_s2 qr_history_def eligible_pointers_def)
  ultimately show ?thesis by simp
qed

subsection \<open>Age gating\<close>

text \<open>
  C4. When every block pointer that a revision of the folder's history
  unreferenced is younger than \<open>MinUnrefAge\<close> at the current clock, a
  reclamation run completes without error and leaves the store's map from block
  to reference map exactly as it was.
\<close>

theorem reclaim_age_gating:
  assumes "\<forall>r\<in>set history. \<forall>p\<in>set (rev_unrefs r). now - rev_timestamp r < MinUnrefAge cfg"
  shows "qr_store (fst (reclaim cfg storeErr now history s)) = qr_store s
         \<and> snd (reclaim cfg storeErr now history s) = None"
proof -
  have "\<forall>r\<in>set (scan history s). eligible cfg now r \<longrightarrow> rev_unrefs r = []"
  proof (intro ballI impI)
    fix r assume r: "r \<in> set (scan history s)" and e: "eligible cfg now r"
    from r have "r \<in> set history" unfolding scan_def by (rule in_set_dropD)
    with assms have "\<forall>p\<in>set (rev_unrefs r). now - rev_timestamp r < MinUnrefAge cfg" by blast
    moreover from e have "\<not> now - rev_timestamp r < MinUnrefAge cfg" by (simp add: eligible_def)
    ultimately have "set (rev_unrefs r) = {}" by auto
    then show "rev_unrefs r = []" by simp
  qed
  then have "eligible_pointers cfg now (qr_store s) (scan history s) = []"
    by (simp add: eligible_pointers_def pending_def)
  then have "batch cfg now (qr_store s) (scan history s) = []" by (simp add: batch_def)
  then show ?thesis by (simp add: reclaim_def Let_def)
qed

text \<open>The witness runs the engine on the sample folder at time 5, before the pointers are 10 old.\<close>

theorem reclaim_age_gating_witness:
  "qr_store (fst (reclaim qr_cfg no_store_error 5 qr_history qr_s0)) = qr_store0
   \<and> snd (reclaim qr_cfg no_store_error 5 qr_history qr_s0) = None"
proof -
  have h: "\<forall>r\<in>set qr_history. \<forall>p\<in>set (rev_unrefs r). 5 - rev_timestamp r < MinUnrefAge qr_cfg"
    by (simp add: qr_history_def qr_cfg_def)
  from reclaim_age_gating [OF h, of no_store_error qr_s0] show ?thesis
    by (simp add: qr_s0_def)
qed

subsection \<open>Bounded batches, progress and convergence\<close>

text \<open>
  C5. A reclamation run, whether it succeeds or fails, adds no reference entry
  and removes at most \<open>MaxPointersPerRun\<close> of them. With a positive threshold, a
  successful run strictly decreases the total number of reference entries
  whenever eligible pointers remain when it starts. When none remain a run
  leaves the store as it is, and successive successful runs reach such a state
  after at most as many runs as the store had reference entries.
\<close>

theorem reclaim_bounded_and_converges:
  assumes "finite_store (qr_store s)"
  shows "totalBlockRefs (qr_store (fst (reclaim cfg storeErr now history s))) \<le> totalBlockRefs (qr_store s)
       \<and> totalBlockRefs (qr_store s) \<le>
           totalBlockRefs (qr_store (fst (reclaim cfg storeErr now history s))) + MaxPointersPerRun cfg
       \<and> (0 < MaxPointersPerRun cfg
          \<and> snd (reclaim cfg storeErr now history s) = None
          \<and> remaining cfg now history s \<noteq> []
          \<longrightarrow> totalBlockRefs (qr_store (fst (reclaim cfg storeErr now history s)))
                < totalBlockRefs (qr_store s))
       \<and> (remaining cfg now history s = []
          \<longrightarrow> qr_store (fst (reclaim cfg storeErr now history s)) = qr_store s)
       \<and> (0 < MaxPointersPerRun cfg \<and> (\<forall>p. storeErr p = None)
          \<longrightarrow> (\<exists>n \<le> totalBlockRefs (qr_store s).
                 remaining cfg now history (reclaim_runs cfg storeErr now history n s) = []))"
proof (intro conjI impI)
  show "totalBlockRefs (qr_store (fst (reclaim cfg storeErr now history s))) \<le> totalBlockRefs (qr_store s)"
    using reclaim_bound [OF assms] by simp
  show "totalBlockRefs (qr_store s) \<le>
      totalBlockRefs (qr_store (fst (reclaim cfg storeErr now history s))) + MaxPointersPerRun cfg"
    using reclaim_bound [OF assms] by simp
next
  assume "0 < MaxPointersPerRun cfg \<and> snd (reclaim cfg storeErr now history s) = None
      \<and> remaining cfg now history s \<noteq> []"
  then show "totalBlockRefs (qr_store (fst (reclaim cfg storeErr now history s)))
      < totalBlockRefs (qr_store s)"
    using reclaim_progress [OF assms] by blast
next
  assume "remaining cfg now history s = []"
  then show "qr_store (fst (reclaim cfg storeErr now history s)) = qr_store s"
    by (rule reclaim_fixed_point)
next
  assume a: "0 < MaxPointersPerRun cfg \<and> (\<forall>p. storeErr p = None)"
  then have pos: "0 < MaxPointersPerRun cfg" and ok: "\<forall>p. storeErr p = None" by simp_all
  from reclaim_runs_converge [OF pos ok assms refl]
  show "\<exists>n \<le> totalBlockRefs (qr_store s).
      remaining cfg now history (reclaim_runs cfg storeErr now history n s) = []" .
qed

text \<open>
  The witness is the sample folder at time 100, where one revision holds three
  pointers and a run may take two: the first run brings the total from 3 to 1,
  and the runs reach a state with no eligible pointer left.
\<close>

theorem reclaim_bounded_and_converges_witness:
  "totalBlockRefs (qr_store qr_s1) < totalBlockRefs (qr_store qr_s0)
   \<and> totalBlockRefs (qr_store qr_s0) \<le> totalBlockRefs (qr_store qr_s1) + MaxPointersPerRun qr_cfg
   \<and> (\<exists>n \<le> totalBlockRefs (qr_store qr_s0).
        remaining qr_cfg 100 qr_history (reclaim_runs qr_cfg no_store_error 100 qr_history n qr_s0) = [])"
proof -
  have f: "finite_store (qr_store qr_s0)"
    by (simp add: qr_s0_def finite_store_qr_store0)
  have pos: "0 < MaxPointersPerRun qr_cfg" by (simp add: qr_cfg_def)
  have ok: "snd (reclaim qr_cfg no_store_error 100 qr_history qr_s0) = None"
    by (rule reclaim_no_store_error)
  have rem: "remaining qr_cfg 100 qr_history qr_s0 \<noteq> []"
    using remaining_sample by simp
  have all: "\<forall>p. no_store_error p = None" by (simp add: no_store_error_def)
  from pos ok rem all
    reclaim_bounded_and_converges [OF f, of qr_cfg no_store_error 100 qr_history]
  show ?thesis unfolding qr_s1_def by blast
qed

text \<open>
  On the sample folder the second run takes the pointer the first run left, and
  the watermark then moves past the revision.
\<close>

lemma reclaim_resumes_sample:
  "batch qr_cfg 100 (qr_store qr_s1) (scan qr_history qr_s1) = [qr_ptr 3]
   \<and> totalBlockRefs (qr_store qr_s2) < totalBlockRefs (qr_store qr_s1)
   \<and> qr_watermark qr_s2 = 1"
  using batch_qr_s1 totalBlockRefs_sample watermark_qr_s2 by simp

end
